theory Spec2Isabelle
  imports Main "HOL-Library.Word"
begin

section \<open>Text: characters, whitespace, trimming\<close>

text \<open>
  Python strings are sequences of code points. The model uses \<open>string\<close>, so it covers
  documents whose code points are below 256; every pattern of the program is ASCII.
\<close>

abbreviation NL :: char where "NL \<equiv> CHR 0x0A"

definition is_space :: "char \<Rightarrow> bool" where
  \<comment> \<open>\<open>str.isspace\<close>, which is also what \<open>\s\<close> matches in a \<open>str\<close> pattern, below 256.\<close>
  "is_space c = (c \<in> set [CHR 0x09, CHR 0x0A, CHR 0x0B, CHR 0x0C, CHR 0x0D,
                            CHR 0x1C, CHR 0x1D, CHR 0x1E, CHR 0x1F, CHR 0x20,
                            CHR 0x85, CHR 0xA0])"

definition strip :: "string \<Rightarrow> string" where
  \<comment> \<open>\<open>str.strip()\<close> without argument.\<close>
  "strip s = rev (dropWhile is_space (rev (dropWhile is_space s)))"

section \<open>The regular expressions of \<open>read_markdown\<close>\<close>

text \<open>
  Every pattern of \<open>read_markdown\<close> is a sequence of atoms: a literal character, a
  repetition of a one-character class (greedy or lazy, with bounds), the parentheses of
  the one capturing group, and the multi-line anchors. The matcher backtracks as
  Python's \<open>re\<close> does: a greedy repetition tries the longest count first, a lazy one the
  shortest, and the first count for which the rest of the pattern matches wins.
\<close>

datatype cclass =
    Dot                 \<comment> \<open>\<open>.\<close> without DOTALL: anything but a newline\<close>
  | Is char             \<comment> \<open>a literal character\<close>
  | IsNot char          \<comment> \<open>\<open>[^c]\<close>\<close>
  | OneOf "char list"   \<comment> \<open>\<open>[abc]\<close>\<close>
  | Space               \<comment> \<open>\<open>\s\<close>\<close>
  | AnyChar             \<comment> \<open>\<open>[\s\S]\<close>\<close>

fun cclass_match :: "cclass \<Rightarrow> char \<Rightarrow> bool" where
  "cclass_match Dot c = (c \<noteq> NL)"
| "cclass_match (Is d) c = (c = d)"
| "cclass_match (IsNot d) c = (c \<noteq> d)"
| "cclass_match (OneOf ds) c = (c \<in> set ds)"
| "cclass_match Space c = is_space c"
| "cclass_match AnyChar c = True"

datatype atom =
    Chr char
  | Rep cclass nat "nat option" bool  \<comment> \<open>class, minimum, maximum, greedy\<close>
  | GOpen
  | GClose
  | Bol                               \<comment> \<open>\<open>^\<close> under \<open>re.MULTILINE\<close>\<close>
  | Eol                               \<comment> \<open>\<open>$\<close> under \<open>re.MULTILINE\<close>\<close>

type_synonym capture = "string option \<times> string option"
  \<comment> \<open>the text that was left when the group opened, and the group's text once closed\<close>

primrec first_some :: "('a \<Rightarrow> 'b option) \<Rightarrow> 'a list \<Rightarrow> 'b option" where
  "first_some f [] = None"
| "first_some f (x # xs) = (case f x of Some y \<Rightarrow> Some y | None \<Rightarrow> first_some f xs)"

definition rep_counts :: "cclass \<Rightarrow> nat \<Rightarrow> nat option \<Rightarrow> bool \<Rightarrow> string \<Rightarrow> nat list" where
  \<comment> \<open>the numbers of characters a repetition may take, in the order they are tried\<close>
  "rep_counts cls lo hi greedy rest =
     (let n = length (takeWhile (cclass_match cls) rest);
          m = (case hi of None \<Rightarrow> n | Some h \<Rightarrow> min h n);
          ks = [lo ..< Suc m]
      in if greedy then rev ks else ks)"

definition prev_after :: "char option \<Rightarrow> string \<Rightarrow> nat \<Rightarrow> char option" where
  \<comment> \<open>the character before the position reached by taking \<open>k\<close> characters of \<open>rest\<close>\<close>
  "prev_after prev rest k = (if k = 0 then prev else Some (rest ! (k - 1)))"

primrec match_here ::
  "atom list \<Rightarrow> nat option \<Rightarrow> char option \<Rightarrow> string \<Rightarrow> capture \<Rightarrow> (string \<times> capture) option"
where
  "match_here [] adv prev rest cap =
     (if adv = Some (length rest) then None else Some (rest, cap))"
| "match_here (a # ps) adv prev rest cap =
     (case a of
        Chr c \<Rightarrow>
          (case rest of
             [] \<Rightarrow> None
           | x # xs \<Rightarrow> if x = c then match_here ps adv (Some x) xs cap else None)
      | Rep cls lo hi greedy \<Rightarrow>
          first_some
            (\<lambda>k. match_here ps adv (prev_after prev rest k) (drop k rest) cap)
            (rep_counts cls lo hi greedy rest)
      | GOpen \<Rightarrow> match_here ps adv prev rest (Some rest, snd cap)
      | GClose \<Rightarrow>
          match_here ps adv prev rest
            (fst cap,
             (case fst cap of
                None \<Rightarrow> None
              | Some opened \<Rightarrow> Some (take (length opened - length rest) opened)))
      | Bol \<Rightarrow>
          (if prev = None \<or> prev = Some NL then match_here ps adv prev rest cap else None)
      | Eol \<Rightarrow>
          (case rest of
             [] \<Rightarrow> match_here ps adv prev rest cap
           | x # xs \<Rightarrow> if x = NL then match_here ps adv prev rest cap else None))"

text \<open>
  \<open>adv\<close> is the engine's must-advance flag: \<open>Some n\<close> refuses a match that ends where
  \<open>n\<close> characters are left, that is an empty match at the position the search starts from.
\<close>

subsection \<open>\<open>re.sub\<close>\<close>

datatype ritem = RLit string | RGroup   \<comment> \<open>replacement template: literal text, \<open>\1\<close>\<close>

fun expand :: "ritem list \<Rightarrow> capture \<Rightarrow> string" where
  "expand [] cap = []"
| "expand (RLit s # rs) cap = s @ expand rs cap"
| "expand (RGroup # rs) cap = (case snd cap of None \<Rightarrow> [] | Some g \<Rightarrow> g) @ expand rs cap"

definition at_position :: "atom list \<Rightarrow> ritem list \<Rightarrow> char option \<Rightarrow> string \<Rightarrow> string \<times> nat" where
  \<comment> \<open>the replacement text emitted at one position and the number of characters the
      match there takes; an empty match is followed by one more attempt at the same
      position that has to advance\<close>
  "at_position pat repl prev rest =
     (case match_here pat None prev rest (None, None) of
        None \<Rightarrow> ([], 0)
      | Some (r1, c1) \<Rightarrow>
          if length r1 < length rest then (expand repl c1, length rest - length r1)
          else
            (case match_here pat (Some (length rest)) prev rest (None, None) of
               None \<Rightarrow> (expand repl c1, 0)
             | Some (r2, c2) \<Rightarrow> (expand repl c1 @ expand repl c2, length rest - length r2)))"

fun sub_from :: "atom list \<Rightarrow> ritem list \<Rightarrow> char option \<Rightarrow> string \<Rightarrow> nat \<Rightarrow> string" where
  "sub_from pat repl prev [] skip = fst (at_position pat repl prev [])"
| "sub_from pat repl prev (x # xs) skip =
     (if 0 < skip then sub_from pat repl (Some x) xs (skip - 1)
      else
        (case at_position pat repl prev (x # xs) of
           (out, k) \<Rightarrow>
             if k = 0 then out @ x # sub_from pat repl (Some x) xs 0
             else out @ sub_from pat repl (Some x) xs (k - 1)))"

definition re_sub :: "atom list \<Rightarrow> ritem list \<Rightarrow> string \<Rightarrow> string" where
  "re_sub pat repl s = sub_from pat repl None s 0"

subsection \<open>The nine rewrites\<close>

definition pat_image :: "atom list" where
  \<comment> \<open>\<^verbatim>\<open>!\[.*?\]\(.*?\)\<close>\<close>
  "pat_image = [Chr (CHR ''!''), Chr (CHR ''[''), Rep Dot 0 None False, Chr (CHR '']''),
                Chr (CHR ''(''), Rep Dot 0 None False, Chr (CHR '')'')]"

definition pat_link :: "atom list" where
  \<comment> \<open>\<^verbatim>\<open>\[([^\]]+)\]\([^\)]+\)\<close>\<close>
  "pat_link = [Chr (CHR ''[''), GOpen, Rep (IsNot (CHR '']'')) 1 None True, GClose,
               Chr (CHR '']''), Chr (CHR ''(''), Rep (IsNot (CHR '')'')) 1 None True,
               Chr (CHR '')'')]"

definition pat_heading :: "atom list" where
  \<comment> \<open>\<^verbatim>\<open>^#{1,6}\s+\<close> with MULTILINE\<close>
  "pat_heading = [Bol, Rep (Is (CHR ''#'')) 1 (Some 6) True, Rep Space 1 None True]"

definition pat_emph :: "char \<Rightarrow> atom list" where
  \<comment> \<open>\<^verbatim>\<open>\*{1,3}(.*?)\*{1,3}\<close> and the same with \<open>_\<close>\<close>
  "pat_emph c = [Rep (Is c) 1 (Some 3) True, GOpen, Rep Dot 0 None False, GClose,
                 Rep (Is c) 1 (Some 3) True]"

definition pat_inline_code :: "atom list" where
  \<comment> \<open>\<^verbatim>\<open>`([^`]+)`\<close>\<close>
  "pat_inline_code = [Chr (CHR 0x60), GOpen, Rep (IsNot (CHR 0x60)) 1 None True, GClose,
                      Chr (CHR 0x60)]"

definition pat_code_block :: "atom list" where
  \<comment> \<open>\<^verbatim>\<open>```[\s\S]*?```\<close>\<close>
  "pat_code_block = [Chr (CHR 0x60), Chr (CHR 0x60), Chr (CHR 0x60), Rep AnyChar 0 None False,
                     Chr (CHR 0x60), Chr (CHR 0x60), Chr (CHR 0x60)]"

definition pat_rule :: "atom list" where
  \<comment> \<open>\<^verbatim>\<open>^[-*_]{3,}\s*$\<close> with MULTILINE\<close>
  "pat_rule = [Bol, Rep (OneOf ''-*_'') 3 None True, Rep Space 0 None True, Eol]"

definition pat_blank_lines :: "atom list" where
  \<comment> \<open>\<^verbatim>\<open>\n{3,}\<close>\<close>
  "pat_blank_lines = [Rep (Is NL) 3 None True]"

definition extract_text :: "string \<Rightarrow> string" where
  \<comment> \<open>\<open>read_markdown\<close> from the contents of the file on: the rewrites in the order of
      the source, then \<open>strip\<close>\<close>
  "extract_text text0 =
     (let text = re_sub pat_image [] text0;
          text = re_sub pat_link [RGroup] text;
          text = re_sub pat_heading [] text;
          text = re_sub (pat_emph (CHR ''*'')) [RGroup] text;
          text = re_sub (pat_emph (CHR ''_'')) [RGroup] text;
          text = re_sub pat_inline_code [RGroup] text;
          text = re_sub pat_code_block [] text;
          text = re_sub pat_rule [] text;
          text = re_sub pat_blank_lines [RLit [NL, NL]] text
      in strip text)"

section \<open>Library functions on strings\<close>

definition starts_with :: "string \<Rightarrow> string \<Rightarrow> bool" where
  \<comment> \<open>\<open>s.startswith(p)\<close>\<close>
  "starts_with p s = (take (length p) s = p)"

fun str_contains :: "string \<Rightarrow> string \<Rightarrow> bool" where
  \<comment> \<open>\<open>p in s\<close>\<close>
  "str_contains p [] = (p = [])"
| "str_contains p (x # xs) = (starts_with p (x # xs) \<or> str_contains p xs)"

definition lower_char :: "char \<Rightarrow> char" where
  "lower_char c =
     (let n = (of_char c :: nat)
      in if (0x41 \<le> n \<and> n \<le> 0x5A) \<or> (0xC0 \<le> n \<and> n \<le> 0xDE \<and> n \<noteq> 0xD7)
         then char_of (n + 0x20) else c)"

definition lower :: "string \<Rightarrow> string" where
  \<comment> \<open>\<open>str.lower()\<close> on code points below 256\<close>
  "lower s = map lower_char s"

definition replace_char :: "char \<Rightarrow> string \<Rightarrow> string \<Rightarrow> string" where
  \<comment> \<open>\<open>s.replace(c, r)\<close> for a one-character \<open>c\<close>\<close>
  "replace_char c r s = concat (map (\<lambda>x. if x = c then r else [x]) s)"

definition html_escape :: "string \<Rightarrow> string" where
  \<comment> \<open>\<open>html.escape(s)\<close> with its default \<open>quote=True\<close>: five replacements, \<open>&\<close> first\<close>
  "html_escape s =
     replace_char (CHR 0x27) ''&#x27;''
       (replace_char (CHR 0x22) ''&quot;''
          (replace_char (CHR ''>'') ''&gt;''
             (replace_char (CHR ''<'') ''&lt;''
                (replace_char (CHR ''&'') ''&amp;'' s))))"

section \<open>Configuration\<close>

record config =
  SPEECH_KEY :: string
  SPEECH_REGION :: string
  SPEAKER_PROFILE_ID :: string
  SPEECH_LANGUAGE :: string
  SPEECH_STYLE :: string
  OUTPUT_FORMAT :: string
  OUTPUT_FILENAME :: string

datatype stop = SysExit nat | Uncaught
  \<comment> \<open>how a call ends when it does not return: \<open>sys.exit(n)\<close>, or an exception nobody catches\<close>

type_synonym getenv = "string \<Rightarrow> string option"
  \<comment> \<open>the environment after \<open>load_dotenv()\<close>\<close>

definition required_value :: "getenv \<Rightarrow> string \<Rightarrow> string option" where
  \<comment> \<open>one round of the loop over the required keys; \<open>None\<close> is the \<open>sys.exit(1)\<close>\<close>
  "required_value env key =
     (case env key of
        None \<Rightarrow> None
      | Some v \<Rightarrow> if v = [] \<or> starts_with ''your_'' v then None else Some v)"

definition getenv_default :: "getenv \<Rightarrow> string \<Rightarrow> string \<Rightarrow> string" where
  "getenv_default env key d = (case env key of None \<Rightarrow> d | Some v \<Rightarrow> v)"

definition load_config :: "getenv \<Rightarrow> string + config" where
  \<comment> \<open>\<open>Inl key\<close>: the first required key that is missing, empty or a placeholder; the
      source reports it and calls \<open>sys.exit(1)\<close>\<close>
  "load_config env =
     (case required_value env ''SPEECH_KEY'' of
        None \<Rightarrow> Inl ''SPEECH_KEY''
      | Some k \<Rightarrow>
     (case required_value env ''SPEECH_REGION'' of
        None \<Rightarrow> Inl ''SPEECH_REGION''
      | Some r \<Rightarrow>
     (case required_value env ''SPEAKER_PROFILE_ID'' of
        None \<Rightarrow> Inl ''SPEAKER_PROFILE_ID''
      | Some p \<Rightarrow>
          Inr \<lparr> SPEECH_KEY = k, SPEECH_REGION = r, SPEAKER_PROFILE_ID = p,
                SPEECH_LANGUAGE = getenv_default env ''SPEECH_LANGUAGE'' ''en-US'',
                SPEECH_STYLE = getenv_default env ''SPEECH_STYLE'' ''Cheerful'',
                OUTPUT_FORMAT = lower (getenv_default env ''OUTPUT_FORMAT'' ''wav''),
                OUTPUT_FILENAME = getenv_default env ''OUTPUT_FILENAME'' ''output'' \<rparr>)))"

record args =
  arg_input :: string
  arg_output :: "string option"

definition apply_output_override :: "args \<Rightarrow> config \<Rightarrow> config" where
  \<comment> \<open>\<open>if args.output: config["OUTPUT_FILENAME"] = args.output\<close>\<close>
  "apply_output_override a cfg =
     (case arg_output a of
        None \<Rightarrow> cfg
      | Some name \<Rightarrow> if name = [] then cfg else cfg\<lparr>OUTPUT_FILENAME := name\<rparr>)"

section \<open>The world the program acts on\<close>

type_synonym bytes = "8 word list"

datatype json =
    JNull | JBool bool | JNum int | JStr string | JArr "json list"
  | JObj "(string \<times> json) list"   \<comment> \<open>the items of the decoded dict\<close>

datatype cancel_reason = CancelError | CancelOther

datatype line =
    Line string                 \<comment> \<open>a line of fixed text\<close>
  | SavedTrial string nat       \<comment> \<open>SUCCESS: Audio saved to 'file' (size), the size in bytes\<close>
  | SynthesisFailed nat         \<comment> \<open>ERROR: Synthesis failed (HTTP status)\<close>
  | MessageLine json            \<comment> \<open>Message: msg\<close>
  | DetailLine json             \<comment> \<open>Detail: inner\<close>
  | ResponseLine string         \<comment> \<open>Response: the first 300 characters of the body\<close>
  | SavedSdk string             \<comment> \<open>SUCCESS: Audio saved to 'file'\<close>
  | ResultIdLine string
  | CanceledLine cancel_reason
  | ErrorDetailsLine string

record world =
  files :: "string \<rightharpoonup> bytes"
  console :: "line list"

definition print :: "line \<Rightarrow> world \<Rightarrow> world" where
  "print l w = w\<lparr>console := console w @ [l]\<rparr>"

text \<open>
  The console model keeps the lines that report an outcome; the progress lines (region,
  language, text length and so on) are left out.
\<close>

section \<open>\<open>read_markdown\<close>\<close>

definition read_markdown :: "(string \<rightharpoonup> string) \<Rightarrow> string \<Rightarrow> world \<Rightarrow> (stop + string) \<times> world" where
  \<comment> \<open>the first argument gives the decoded contents of the regular files\<close>
  "read_markdown fs file_path w =
     (case fs file_path of
        None \<Rightarrow>
          (Inl (SysExit 1),
           print (Line (''ERROR: Input file '' @ [CHR 0x27] @ file_path @ [CHR 0x27] @ '' not found.'')) w)
      | Some text0 \<Rightarrow> (Inr (extract_text text0), w))"

section \<open>The prober\<close>

datatype 'a http = Raises | Responds 'a
  \<comment> \<open>what a call of \<open>requests\<close> does: raise an exception, or return a response\<close>

type_synonym headers = "(string \<times> string) list"

definition trial_model_url :: "string \<Rightarrow> string \<Rightarrow> string" where
  "trial_model_url region speaker_id =
     ''https://'' @ region @ ''.api.cognitive.microsoft.com'' @
     ''/customvoice/trial/zeroshots/'' @ speaker_id @ ''?api-version=2023-07-01-preview''"

definition is_trial_voice :: "config \<Rightarrow> (string \<Rightarrow> headers \<Rightarrow> nat http) \<Rightarrow> bool" where
  \<comment> \<open>the second argument is \<open>requests.get\<close>, answering with the status code\<close>
  "is_trial_voice cfg http_get =
     (let url = trial_model_url (SPEECH_REGION cfg) (SPEAKER_PROFILE_ID cfg);
          hdrs = [(''Ocp-Apim-Subscription-Key'', SPEECH_KEY cfg)]
      in case http_get url hdrs of
           Responds status_code \<Rightarrow> status_code = 200
         | Raises \<Rightarrow> False)"

section \<open>The trial path\<close>

record trial_body =
  b_model :: string
  b_locale :: string
  b_scriptOrder :: int
  b_text :: string
  b_baseModelName :: string

record response =
  status_code :: nat
  content_type :: "string option"   \<comment> \<open>the Content-Type header, when there is one\<close>
  content :: bytes
  body_text :: string               \<comment> \<open>\<open>response.text\<close>\<close>
  body_json :: "json option"        \<comment> \<open>\<open>response.json()\<close>; \<open>None\<close> when it raises\<close>

definition SCRIPT_ORDER_BY_LOCALE :: "(string \<times> int) list" where
  "SCRIPT_ORDER_BY_LOCALE =
     [(''en-US'', 11), (''en-GB'', 11), (''en-AU'', 11), (''en-IN'', 11),
      (''es-ES'', 13), (''es-MX'', 13),
      (''fr-FR'', 12), (''de-DE'', 12), (''it-IT'', 12),
      (''ja-JP'', 14), (''ko-KR'', 14), (''zh-CN'', 14),
      (''pt-BR'', 13)]"

definition script_order :: "string \<Rightarrow> int" where
  \<comment> \<open>\<open>SCRIPT_ORDER_BY_LOCALE.get(language, 11)\<close>\<close>
  "script_order language =
     (case map_of SCRIPT_ORDER_BY_LOCALE language of None \<Rightarrow> 11 | Some v \<Rightarrow> v)"

definition trial_output_file :: "config \<Rightarrow> string" where
  "trial_output_file cfg = OUTPUT_FILENAME cfg @ ''.'' @ OUTPUT_FORMAT cfg"

definition trial_synth_url :: "config \<Rightarrow> string" where
  "trial_synth_url cfg =
     ''https://'' @ SPEECH_REGION cfg @ ''.api.cognitive.microsoft.com'' @
     ''/customvoice/trial/synthesis?api-version=2023-07-01-preview''"

definition trial_headers :: "config \<Rightarrow> headers" where
  "trial_headers cfg =
     [(''Ocp-Apim-Subscription-Key'', SPEECH_KEY cfg), (''Content-Type'', ''application/json'')]"

definition trial_request_body :: "config \<Rightarrow> string \<Rightarrow> trial_body" where
  "trial_request_body cfg text =
     \<lparr> b_model = trial_model_url (SPEECH_REGION cfg) (SPEAKER_PROFILE_ID cfg),
       b_locale = SPEECH_LANGUAGE cfg,
       b_scriptOrder = script_order (SPEECH_LANGUAGE cfg),
       b_text = text,
       b_baseModelName = ''DragonLatestNeural'' \<rparr>"

fun dict_get :: "json \<Rightarrow> string \<Rightarrow> json \<Rightarrow> json option" where
  \<comment> \<open>\<open>v.get(key, default)\<close>; \<open>None\<close> is the AttributeError of a value that is no dict\<close>
  "dict_get (JObj kvs) key d = Some (case map_of kvs key of None \<Rightarrow> d | Some v \<Rightarrow> v)"
| "dict_get _ key d = None"

fun truthy :: "json \<Rightarrow> bool" where
  "truthy JNull = False"
| "truthy (JBool b) = b"
| "truthy (JNum n) = (n \<noteq> 0)"
| "truthy (JStr s) = (s \<noteq> [])"
| "truthy (JArr xs) = (xs \<noteq> [])"
| "truthy (JObj kvs) = (kvs \<noteq> [])"

definition error_message :: "response \<Rightarrow> (json \<times> json) option" where
  \<comment> \<open>the body of the \<open>try\<close> up to the first print: \<open>msg\<close> and \<open>inner\<close>, or \<open>None\<close> when
      one of the three statements raises\<close>
  "error_message r =
     (case body_json r of
        None \<Rightarrow> None
      | Some err \<Rightarrow>
     (case dict_get err ''error'' (JObj []) of
        None \<Rightarrow> None
      | Some e1 \<Rightarrow>
     (case dict_get e1 ''message'' (JStr (take 300 (body_text r))) of
        None \<Rightarrow> None
      | Some msg \<Rightarrow>
     (case dict_get e1 ''innererror'' (JObj []) of
        None \<Rightarrow> None
      | Some ie \<Rightarrow>
     (case dict_get ie ''message'' (JStr []) of
        None \<Rightarrow> None
      | Some inner \<Rightarrow> Some (msg, inner))))))"

definition report_failure :: "response \<Rightarrow> world \<Rightarrow> world" where
  "report_failure r w =
     (let w1 = print (SynthesisFailed (status_code r)) w
      in case error_message r of
           Some (msg, inner) \<Rightarrow>
             (let w2 = print (MessageLine msg) w1
              in if truthy inner then print (DetailLine inner) w2 else w2)
         | None \<Rightarrow> print (ResponseLine (take 300 (body_text r))) w1)"

definition is_audio_response :: "response \<Rightarrow> bool" where
  \<comment> \<open>\<open>response.status_code == 200 and "audio" in response.headers.get("Content-Type", "")\<close>\<close>
  "is_audio_response r =
     (status_code r = 200 \<and>
      str_contains ''audio'' (case content_type r of None \<Rightarrow> [] | Some t \<Rightarrow> t))"

definition synthesize_trial ::
  "config \<Rightarrow> string \<Rightarrow> (string \<Rightarrow> headers \<Rightarrow> trial_body \<Rightarrow> response http) \<Rightarrow> world
     \<Rightarrow> (stop + unit) \<times> world"
where
  \<comment> \<open>the third argument is \<open>requests.post\<close>\<close>
  "synthesize_trial cfg text http_post w =
     (case http_post (trial_synth_url cfg) (trial_headers cfg) (trial_request_body cfg text) of
        Raises \<Rightarrow> (Inl Uncaught, w)
      | Responds r \<Rightarrow>
          if is_audio_response r then
            (let w1 = w\<lparr>files := (files w)(trial_output_file cfg \<mapsto> content r)\<rparr>
             in (Inr (), print (SavedTrial (trial_output_file cfg) (length (content r))) w1))
          else (Inl (SysExit 1), report_failure r w))"

section \<open>The expressive path\<close>

datatype audio_format = Audio24Khz160KBitRateMonoMp3 | Riff24Khz16BitMonoPcm

definition sdk_format :: "config \<Rightarrow> audio_format" where
  "sdk_format cfg =
     (if OUTPUT_FORMAT cfg = ''mp3'' then Audio24Khz160KBitRateMonoMp3 else Riff24Khz16BitMonoPcm)"

definition sdk_output_file :: "config \<Rightarrow> string" where
  "sdk_output_file cfg =
     (if OUTPUT_FORMAT cfg = ''mp3'' then OUTPUT_FILENAME cfg @ ''.mp3''
      else OUTPUT_FILENAME cfg @ ''.wav'')"

definition PROSODY_PRESETS :: "(string \<times> string \<times> string) list" where
  \<comment> \<open>style, rate, pitch\<close>
  "PROSODY_PRESETS =
     [(''Cheerful'', ''+8%'', ''+5%''),
      (''Excited'', ''+12%'', ''+8%''),
      (''Friendly'', ''+5%'', ''+3%''),
      (''Enthusiastic'', ''+10%'', ''+6%'')]"

definition lang_element :: "string \<Rightarrow> string \<Rightarrow> string" where
  "lang_element lang text =
     ''<lang xml:lang='' @ [CHR 0x27] @ lang @ [CHR 0x27] @ ''>'' @ html_escape text @ ''</lang>''"

definition ssml_inner :: "string \<Rightarrow> string \<Rightarrow> string \<Rightarrow> string" where
  \<comment> \<open>the variable \<open>inner\<close>\<close>
  "ssml_inner style lang text =
     (case map_of PROSODY_PRESETS style of
        Some (rate, pitch) \<Rightarrow>
          ''<prosody rate='' @ [CHR 0x27] @ rate @ [CHR 0x27] @
          '' pitch='' @ [CHR 0x27] @ pitch @ [CHR 0x27] @ ''>'' @
          lang_element lang text @
          ''</prosody>''
      | None \<Rightarrow> lang_element lang text)"

definition build_ssml :: "config \<Rightarrow> string \<Rightarrow> string" where
  \<comment> \<open>the variable \<open>ssml\<close>\<close>
  "build_ssml cfg text =
     ''<speak version='' @ [CHR 0x27] @ ''1.0'' @ [CHR 0x27] @
     '' xml:lang='' @ [CHR 0x27] @ SPEECH_LANGUAGE cfg @ [CHR 0x27] @ '' '' @
     ''xmlns='' @ [CHR 0x27] @ ''http://www.w3.org/2001/10/synthesis'' @ [CHR 0x27] @ '' '' @
     ''xmlns:mstts='' @ [CHR 0x27] @ ''http://www.w3.org/2001/mstts'' @ [CHR 0x27] @ ''>'' @
     ''<voice name='' @ [CHR 0x27] @ ''DragonLatestNeural'' @ [CHR 0x27] @ ''>'' @
     ''<mstts:ttsembedding speakerProfileId='' @ [CHR 0x27] @
        html_escape (SPEAKER_PROFILE_ID cfg) @ [CHR 0x27] @ ''/>'' @
     ''<mstts:express-as style='' @ [CHR 0x27] @ html_escape (SPEECH_STYLE cfg) @ [CHR 0x27] @ ''>'' @
     ssml_inner (SPEECH_STYLE cfg) (SPEECH_LANGUAGE cfg) text @
     ''</mstts:express-as>'' @
     ''</voice>'' @
     ''</speak>''"

record sdk_request =
  q_subscription :: string
  q_region :: string
  q_format :: audio_format
  q_filename :: string
  q_ssml :: string

datatype sdk_result =
    SynthesizingAudioCompleted string     \<comment> \<open>the result id\<close>
  | Canceled cancel_reason string         \<comment> \<open>the reason and the error details\<close>
  | OtherReason

definition sdk_request_of :: "config \<Rightarrow> string \<Rightarrow> sdk_request" where
  "sdk_request_of cfg text =
     \<lparr> q_subscription = SPEECH_KEY cfg, q_region = SPEECH_REGION cfg,
       q_format = sdk_format cfg, q_filename = sdk_output_file cfg,
       q_ssml = build_ssml cfg text \<rparr>"

definition synthesize_sdk ::
  "config \<Rightarrow> string \<Rightarrow> (sdk_request \<Rightarrow> sdk_result) option \<Rightarrow> world \<Rightarrow> (stop + unit) \<times> world"
where
  \<comment> \<open>the third argument is the Speech SDK, \<open>None\<close> when its import fails; the SDK itself
      writes the audio to the file named in the request\<close>
  "synthesize_sdk cfg text sdk w =
     (case sdk of
        None \<Rightarrow>
          (Inl (SysExit 1),
           print (Line ''Azure Speech SDK not found. Install with: pip install azure-cognitiveservices-speech'') w)
      | Some speak_ssml \<Rightarrow>
          (case speak_ssml (sdk_request_of cfg text) of
             SynthesizingAudioCompleted rid \<Rightarrow>
               (Inr (), print (ResultIdLine rid) (print (SavedSdk (sdk_output_file cfg)) w))
           | Canceled reason details \<Rightarrow>
               (Inl (SysExit 1),
                (let w1 = print (CanceledLine reason) w
                 in if reason = CancelError then print (ErrorDetailsLine details) w1 else w1))
           | OtherReason \<Rightarrow> (Inr (), w)))"

section \<open>\<open>main\<close>\<close>

record services =
  http_get :: "string \<Rightarrow> headers \<Rightarrow> nat http"
  http_post :: "string \<Rightarrow> headers \<Rightarrow> trial_body \<Rightarrow> response http"
  speech_sdk :: "(sdk_request \<Rightarrow> sdk_result) option"

definition dispatch :: "config \<Rightarrow> string \<Rightarrow> services \<Rightarrow> world \<Rightarrow> (stop + unit) \<times> world" where
  \<comment> \<open>the last statement of \<open>main\<close>\<close>
  "dispatch cfg text srv w =
     (if is_trial_voice cfg (http_get srv) then synthesize_trial cfg text (http_post srv) w
      else synthesize_sdk cfg text (speech_sdk srv) w)"

definition main ::
  "args \<Rightarrow> (string \<rightharpoonup> string) \<Rightarrow> getenv \<Rightarrow> services \<Rightarrow> world \<Rightarrow> (stop + unit) \<times> world"
where
  "main a fs env srv w =
     (case read_markdown fs (arg_input a) w of
        (Inl e, w1) \<Rightarrow> (Inl e, w1)
      | (Inr text, w1) \<Rightarrow>
          if text = [] then
            (Inl (SysExit 1), print (Line ''ERROR: No text found in the input file.'') w1)
          else
            (case load_config env of
               Inl key \<Rightarrow>
                 (Inl (SysExit 1),
                  print (Line (''ERROR: '' @ [CHR 0x27] @ key @ [CHR 0x27] @
                     '' is not set in .env file. Please fill in your actual value.'')) w1)
             | Inr loaded \<Rightarrow> dispatch (apply_output_override a loaded) text srv w1))"


section \<open>Reading of the specification\<close>

definition spec_http_success :: "nat \<Rightarrow> bool" where
  \<comment> \<open>the specification's "HTTP success status", read as the class of successful
      responses, 2xx; the prober itself tests for 200\<close>
  "spec_http_success status = (200 \<le> status \<and> status < 300)"

section \<open>Example inputs\<close>

definition example_config :: config where
  "example_config =
     \<lparr> SPEECH_KEY = ''key'', SPEECH_REGION = ''westeurope'', SPEAKER_PROFILE_ID = ''p1'',
       SPEECH_LANGUAGE = ''en-US'', SPEECH_STYLE = ''Cheerful'', OUTPUT_FORMAT = ''wav'',
       OUTPUT_FILENAME = ''output'' \<rparr>"

definition example_env :: getenv where
  "example_env =
     map_of [(''SPEECH_KEY'', ''key''), (''SPEECH_REGION'', ''westeurope''),
             (''SPEAKER_PROFILE_ID'', ''p1'')]"

definition example_fs :: "string \<rightharpoonup> string" where
  "example_fs = map_of [(''input.md'', ''# Hi'')]"

definition demo_args :: args where
  "demo_args = \<lparr> arg_input = ''input.md'', arg_output = Some ''demo'' \<rparr>"

definition status_only :: "nat \<Rightarrow> string \<Rightarrow> headers \<Rightarrow> nat http" where
  \<comment> \<open>a server that answers every probe with the same status\<close>
  "status_only n url hdrs = Responds n"

definition respond_with :: "response \<Rightarrow> string \<Rightarrow> headers \<Rightarrow> trial_body \<Rightarrow> response http" where
  \<comment> \<open>a server that answers every synthesis request with the same response\<close>
  "respond_with r url hdrs body = Responds r"

definition sdk_completes :: "sdk_request \<Rightarrow> sdk_result" where
  "sdk_completes req = SynthesizingAudioCompleted ''result-1''"

definition empty_world :: world where
  "empty_world = \<lparr> files = Map.empty, console = [] \<rparr>"

definition audio_response :: response where
  "audio_response =
     \<lparr> status_code = 200, content_type = Some ''audio/wav'', content = [82, 73, 70, 70],
       body_text = ''RIFF'', body_json = None \<rparr>"



definition example_services :: services where
  "example_services =
     \<lparr> http_get = status_only 404, http_post = respond_with audio_response,
       speech_sdk = Some sdk_completes \<rparr>"

section \<open>Auxiliary facts\<close>

lemma lower_OGG: "lower ''OGG'' = ''ogg''"
  by code_simp

lemma load_example: "load_config example_env = Inr example_config"
  by (simp add: load_config_def example_env_def example_config_def required_value_def
      getenv_default_def starts_with_def lower_def lower_char_def)

lemma load_ogg:
  "load_config (example_env(''OUTPUT_FORMAT'' \<mapsto> ''OGG''))
     = Inr (example_config\<lparr>OUTPUT_FORMAT := ''ogg''\<rparr>)"
  by (simp add: load_config_def example_env_def example_config_def required_value_def
      getenv_default_def starts_with_def lower_OGG)

lemma extract_hi: "extract_text ''# Hi'' = ''Hi''"
  by code_simp

section \<open>Properties of the text extractor\<close>

text \<open>
  Claim C8. On the document \<open>"# Hello\n\nThis is **bold** and a [link](http://x).\n"\<close> the
  extractor returns exactly \<open>"Hello\n\nThis is bold and a link."\<close>: the heading marker, the
  emphasis markers and the link target are gone and the trailing newline is trimmed.
\<close>

theorem extract_hello_scenario:
  "extract_text (''# Hello'' @ [NL, NL] @ ''This is **bold** and a [link](http://x).'' @ [NL])
     = ''Hello'' @ [NL, NL] @ ''This is bold and a link.''"
  by code_simp

text \<open>
  When the extracted text is empty, \<open>main\<close> exits with status 1 whatever the environment
  and the services are: nothing is loaded and no request is sent.
\<close>

lemma empty_text_is_fatal:
  assumes "fs (arg_input a) = Some doc" and "extract_text doc = []"
  shows "main a fs env srv w =
           (Inl (SysExit 1), print (Line ''ERROR: No text found in the input file.'') w)"
  using assms by (simp add: main_def read_markdown_def)

text \<open>
  Claim C1. The extractor is meant to remove fenced code blocks with their content, so a
  document that is only a fence should extract to the empty text and end the run with a
  non-zero exit. It does not: the inline-code rewrite runs before the code-block rewrite
  and takes the innermost backtick of each fence as an inline-code delimiter, after which
  no triple backtick is left for the code-block rewrite. The document \<open>"```\ncode\n```"\<close>
  extracts to \<open>"``\ncode\n``"\<close>, which is not empty, and \<open>main\<close> goes on to
  synthesis: with a voice that is not a trial voice and an SDK that completes, it returns
  normally.
\<close>

theorem fenced_block_not_removed:
  "extract_text (''```'' @ [NL] @ ''code'' @ [NL] @ ''```'') = ''``'' @ [NL] @ ''code'' @ [NL] @ ''``''
   \<and> main \<lparr>arg_input = ''input.md'', arg_output = None\<rparr>
        (map_of [(''input.md'', ''```'' @ [NL] @ ''code'' @ [NL] @ ''```'')])
        example_env example_services empty_world
      = (Inr (),
         empty_world\<lparr>console := [SavedSdk ''output.wav'', ResultIdLine ''result-1'']\<rparr>)"
proof -
  have x: "extract_text (''```'' @ [NL] @ ''code'' @ [NL] @ ''```'') = ''``'' @ [NL] @ ''code'' @ [NL] @ ''``''"
    by code_simp
  have p: "\<not> is_trial_voice example_config (status_only 404)"
    by (simp add: is_trial_voice_def status_only_def)
  have m: "main \<lparr>arg_input = ''input.md'', arg_output = None\<rparr>
        (map_of [(''input.md'', ''```'' @ [NL] @ ''code'' @ [NL] @ ''```'')])
        example_env example_services empty_world
      = (Inr (),
         empty_world\<lparr>console := [SavedSdk ''output.wav'', ResultIdLine ''result-1'']\<rparr>)"
    using x p
    by (simp add: main_def read_markdown_def load_example apply_output_override_def dispatch_def
        example_services_def synthesize_sdk_def sdk_completes_def print_def empty_world_def
        sdk_output_file_def example_config_def)
  show ?thesis
    using x m by blast
qed

section \<open>Properties of the configuration\<close>

text \<open>
  Claim C2, as stated, fails: \<open>main\<close> assigns the output base name given with \<open>-o\<close> to the
  configuration record after \<open>load_config\<close> has returned it.
\<close>

theorem config_mutated_by_output_override:
  "load_config example_env = Inr example_config
   \<and> apply_output_override demo_args example_config = example_config\<lparr>OUTPUT_FILENAME := ''demo''\<rparr>
   \<and> apply_output_override demo_args example_config \<noteq> example_config"
  by (simp add: load_example apply_output_override_def example_config_def demo_args_def)

text \<open>
  Claim C2, amended. After loading, the configuration record changes in one place only:
  \<open>main\<close> replaces the output base name by the value of \<open>-o\<close> when that is given and not
  empty. Every other field stays as loaded, and the prober and the synthesis branch it
  selects both receive this one record; without \<open>-o\<close> it is the record as loaded.
\<close>

theorem config_after_loading:
  assumes "fs (arg_input a) = Some doc" and "extract_text doc \<noteq> []"
    and "load_config env = Inr loaded"
  shows
    "main a fs env srv w =
       (if is_trial_voice (apply_output_override a loaded) (http_get srv)
        then synthesize_trial (apply_output_override a loaded) (extract_text doc) (http_post srv) w
        else synthesize_sdk (apply_output_override a loaded) (extract_text doc) (speech_sdk srv) w)
     \<and> apply_output_override a loaded =
         loaded\<lparr>OUTPUT_FILENAME :=
           (case arg_output a of
              None \<Rightarrow> OUTPUT_FILENAME loaded
            | Some name \<Rightarrow> if name = [] then OUTPUT_FILENAME loaded else name)\<rparr>
     \<and> (arg_output a = None \<or> arg_output a = Some [] \<longrightarrow> apply_output_override a loaded = loaded)"
  using assms
  by (auto simp: main_def read_markdown_def dispatch_def apply_output_override_def
           split: option.splits)

theorem config_after_loading_witness:
  "example_fs (arg_input demo_args) = Some ''# Hi''
   \<and> extract_text ''# Hi'' \<noteq> []
   \<and> load_config example_env = Inr example_config
   \<and> main demo_args example_fs example_env example_services empty_world =
       synthesize_sdk (example_config\<lparr>OUTPUT_FILENAME := ''demo''\<rparr>) ''Hi'' (Some sdk_completes)
         empty_world"
proof -
  have f: "example_fs (arg_input demo_args) = Some ''# Hi''"
    by (simp add: example_fs_def demo_args_def)
  have t: "extract_text ''# Hi'' \<noteq> []"
    by (simp add: extract_hi)
  have o: "apply_output_override demo_args example_config = example_config\<lparr>OUTPUT_FILENAME := ''demo''\<rparr>"
    by (simp add: apply_output_override_def demo_args_def)
  have p: "\<not> is_trial_voice (example_config\<lparr>OUTPUT_FILENAME := ''demo''\<rparr>) (http_get example_services)"
    by (simp add: is_trial_voice_def example_services_def status_only_def)
  show ?thesis
    using config_after_loading [of example_fs demo_args "''# Hi''" example_env example_config
        example_services empty_world, OF f t load_example] f t p
    by (simp add: o load_example extract_hi example_services_def)
qed

section \<open>Properties of the output path\<close>

text \<open>
  Claim C3, as stated, fails: the output format is whatever lower-cased string the
  environment gives, and for a format other than wav and mp3 the two branches name
  different files. With \<open>OUTPUT_FORMAT=OGG\<close> the trial branch writes \<open>output.ogg\<close> and the
  expressive branch asks the SDK for \<open>output.wav\<close>.
\<close>

theorem output_path_unsupported_format:
  "load_config (example_env(''OUTPUT_FORMAT'' \<mapsto> ''OGG''))
     = Inr (example_config\<lparr>OUTPUT_FORMAT := ''ogg''\<rparr>)
   \<and> trial_output_file (example_config\<lparr>OUTPUT_FORMAT := ''ogg''\<rparr>) = ''output.ogg''
   \<and> q_filename (sdk_request_of (example_config\<lparr>OUTPUT_FORMAT := ''ogg''\<rparr>) ''Hi'') = ''output.wav''"
  by (simp add: load_ogg trial_output_file_def sdk_request_of_def sdk_output_file_def
      example_config_def)

text \<open>
  Claim C3, amended. When the configured output format is wav or mp3, both branches use
  the same path, the base name followed by a dot and the format. For any other format the
  trial branch still appends the configured format, while the expressive branch falls
  back to the extension wav (and to the uncompressed encoding).
\<close>

theorem output_path_convention:
  "(OUTPUT_FORMAT cfg \<in> {''wav'', ''mp3''} \<longrightarrow>
      trial_output_file cfg = OUTPUT_FILENAME cfg @ ''.'' @ OUTPUT_FORMAT cfg
      \<and> q_filename (sdk_request_of cfg text) = trial_output_file cfg)
   \<and> (OUTPUT_FORMAT cfg \<notin> {''wav'', ''mp3''} \<longrightarrow>
      trial_output_file cfg = OUTPUT_FILENAME cfg @ ''.'' @ OUTPUT_FORMAT cfg
      \<and> q_filename (sdk_request_of cfg text) = OUTPUT_FILENAME cfg @ ''.wav'')
   \<and> q_format (sdk_request_of cfg text) =
        (if OUTPUT_FORMAT cfg = ''mp3'' then Audio24Khz160KBitRateMonoMp3
         else Riff24Khz16BitMonoPcm)"
  by (auto simp: trial_output_file_def sdk_request_of_def sdk_output_file_def sdk_format_def)

theorem output_path_convention_witness:
  "OUTPUT_FORMAT (example_config\<lparr>OUTPUT_FORMAT := ''mp3''\<rparr>) \<in> {''wav'', ''mp3''}
   \<and> trial_output_file (example_config\<lparr>OUTPUT_FORMAT := ''mp3''\<rparr>) = ''output.mp3''
   \<and> q_filename (sdk_request_of (example_config\<lparr>OUTPUT_FORMAT := ''mp3''\<rparr>) ''Hi'') = ''output.mp3''
   \<and> OUTPUT_FORMAT (example_config\<lparr>OUTPUT_FORMAT := ''flac''\<rparr>) \<notin> {''wav'', ''mp3''}
   \<and> q_filename (sdk_request_of (example_config\<lparr>OUTPUT_FORMAT := ''flac''\<rparr>) ''Hi'') = ''output.wav''"
  using output_path_convention [of "example_config\<lparr>OUTPUT_FORMAT := ''mp3''\<rparr>" "''Hi''"]
        output_path_convention [of "example_config\<lparr>OUTPUT_FORMAT := ''flac''\<rparr>" "''Hi''"]
  by (simp add: example_config_def)

section \<open>Properties of the prober and the dispatcher\<close>

text \<open>
  Claim C4, as stated, fails: the prober takes the voice for a trial voice on status 200
  only. A response with another success status, such as 204, classifies it as not trial.
\<close>

theorem probe_success_status_not_trial:
  "spec_http_success 204 \<and> \<not> is_trial_voice example_config (status_only 204)"
  by (simp add: spec_http_success_def is_trial_voice_def status_only_def)

text \<open>
  Claim C4, amended. The prober answers "trial" exactly when the probe request returns
  with status 200; every other status and every failure of the request give "not trial",
  and the prober always returns a boolean. On a probe response 404 the dispatcher runs
  the expressive path.
\<close>

theorem probe_classification:
  "(is_trial_voice cfg get \<longleftrightarrow>
      get (trial_model_url (SPEECH_REGION cfg) (SPEAKER_PROFILE_ID cfg))
          [(''Ocp-Apim-Subscription-Key'', SPEECH_KEY cfg)] = Responds 200)
   \<and> (get (trial_model_url (SPEECH_REGION cfg) (SPEAKER_PROFILE_ID cfg))
          [(''Ocp-Apim-Subscription-Key'', SPEECH_KEY cfg)] = Raises \<longrightarrow>
        \<not> is_trial_voice cfg get)
   \<and> (http_get srv (trial_model_url (SPEECH_REGION cfg) (SPEAKER_PROFILE_ID cfg))
          [(''Ocp-Apim-Subscription-Key'', SPEECH_KEY cfg)] = Responds 404 \<longrightarrow>
        dispatch cfg text srv w = synthesize_sdk cfg text (speech_sdk srv) w)"
  by (auto simp: is_trial_voice_def dispatch_def split: http.splits)

theorem probe_classification_witness:
  "http_get example_services
       (trial_model_url (SPEECH_REGION example_config) (SPEAKER_PROFILE_ID example_config))
       [(''Ocp-Apim-Subscription-Key'', SPEECH_KEY example_config)] = Responds 404
   \<and> \<not> is_trial_voice example_config (http_get example_services)
   \<and> dispatch example_config ''Hi'' example_services empty_world
        = synthesize_sdk example_config ''Hi'' (speech_sdk example_services) empty_world
   \<and> is_trial_voice example_config (status_only 200)"
proof -
  have g: "http_get example_services
       (trial_model_url (SPEECH_REGION example_config) (SPEAKER_PROFILE_ID example_config))
       [(''Ocp-Apim-Subscription-Key'', SPEECH_KEY example_config)] = Responds 404"
    by (simp add: example_services_def status_only_def)
  have h: "status_only 200
       (trial_model_url (SPEECH_REGION example_config) (SPEAKER_PROFILE_ID example_config))
       [(''Ocp-Apim-Subscription-Key'', SPEECH_KEY example_config)] = Responds 200"
    by (simp add: status_only_def)
  show ?thesis
    using probe_classification [of example_config "http_get example_services" example_services
        "''Hi''" empty_world]
      probe_classification [of example_config "status_only 200" example_services
        "''Hi''" empty_world] g h
    by simp
qed

section \<open>Properties of the trial path\<close>

text \<open>
  Claim C6. The scriptOrder of the trial request body is the table's value for the
  configured locale when the table lists it (11 for the English locales, 12 for fr-FR,
  de-DE and it-IT, 13 for es-ES, es-MX and pt-BR, 14 for ja-JP, ko-KR and zh-CN) and the
  default 11 for a locale the table does not list.
\<close>

theorem script_order_lookup:
  "b_scriptOrder (trial_request_body cfg text) = script_order (SPEECH_LANGUAGE cfg)
   \<and> (SPEECH_LANGUAGE cfg \<in> {''en-US'', ''en-GB'', ''en-AU'', ''en-IN''} \<longrightarrow>
        b_scriptOrder (trial_request_body cfg text) = 11)
   \<and> (SPEECH_LANGUAGE cfg \<in> {''fr-FR'', ''de-DE'', ''it-IT''} \<longrightarrow>
        b_scriptOrder (trial_request_body cfg text) = 12)
   \<and> (SPEECH_LANGUAGE cfg \<in> {''es-ES'', ''es-MX'', ''pt-BR''} \<longrightarrow>
        b_scriptOrder (trial_request_body cfg text) = 13)
   \<and> (SPEECH_LANGUAGE cfg \<in> {''ja-JP'', ''ko-KR'', ''zh-CN''} \<longrightarrow>
        b_scriptOrder (trial_request_body cfg text) = 14)
   \<and> (SPEECH_LANGUAGE cfg \<notin> fst ` set SCRIPT_ORDER_BY_LOCALE \<longrightarrow>
        b_scriptOrder (trial_request_body cfg text) = 11)
   \<and> (\<forall>v. (SPEECH_LANGUAGE cfg, v) \<in> set SCRIPT_ORDER_BY_LOCALE \<longrightarrow>
        b_scriptOrder (trial_request_body cfg text) = v)"
  by (auto simp: trial_request_body_def script_order_def SCRIPT_ORDER_BY_LOCALE_def)

theorem script_order_lookup_witness:
  "SPEECH_LANGUAGE (example_config\<lparr>SPEECH_LANGUAGE := ''es-ES''\<rparr>) \<in> {''es-ES'', ''es-MX'', ''pt-BR''}
   \<and> (''es-ES'', 13) \<in> set SCRIPT_ORDER_BY_LOCALE
   \<and> b_scriptOrder (trial_request_body (example_config\<lparr>SPEECH_LANGUAGE := ''es-ES''\<rparr>) ''Hi'') = 13
   \<and> SPEECH_LANGUAGE (example_config\<lparr>SPEECH_LANGUAGE := ''nl-NL''\<rparr>) \<notin> fst ` set SCRIPT_ORDER_BY_LOCALE
   \<and> b_scriptOrder (trial_request_body (example_config\<lparr>SPEECH_LANGUAGE := ''nl-NL''\<rparr>) ''Hi'') = 11"
  using script_order_lookup [of "example_config\<lparr>SPEECH_LANGUAGE := ''es-ES''\<rparr>" "''Hi''"]
        script_order_lookup [of "example_config\<lparr>SPEECH_LANGUAGE := ''nl-NL''\<rparr>" "''Hi''"]
  by (simp add: SCRIPT_ORDER_BY_LOCALE_def)




section \<open>Properties of the expressive path\<close>

subsection \<open>Facts about escaping and substrings\<close>




lemma starts_with_Nil: "starts_with [] s"
  by (simp add: starts_with_def)


lemma starts_with_Cons_Cons: "starts_with (c # p) (x # s) \<longleftrightarrow> c = x \<and> starts_with p s"
  by (auto simp: starts_with_def)

lemma starts_with_append: "starts_with p (p @ s)"
  by (simp add: starts_with_def)

lemma starts_with_append_same: "starts_with (xs @ p) (xs @ s) = starts_with p s"
  by (simp add: starts_with_def)


lemma starts_with_contains: "starts_with p s \<Longrightarrow> str_contains p s"
  by (cases s) (auto simp: starts_with_def)

lemma str_contains_append: "str_contains p (xs @ p @ ys)"
  by (induction xs) (simp_all add: starts_with_contains starts_with_append)


lemma inner_decomposition:
  "\<exists>a b. ssml_inner style lang text = a @ lang_element lang text @ b"
proof (cases "map_of PROSODY_PRESETS style")
  case None
  then have "ssml_inner style lang text = [] @ lang_element lang text @ []"
    by (simp add: ssml_inner_def)
  then show ?thesis by blast
next
  case (Some rp)
  obtain rate pitch where "rp = (rate, pitch)" by (cases rp)
  with Some have "ssml_inner style lang text =
      (''<prosody rate='' @ [CHR 0x27] @ rate @ [CHR 0x27] @
          '' pitch='' @ [CHR 0x27] @ pitch @ [CHR 0x27] @ ''>'') @ lang_element lang text @ ''</prosody>''"
    by (simp add: ssml_inner_def)
  then show ?thesis by blast
qed





subsection \<open>Prosody presets\<close>



subsection \<open>Escaping\<close>


text \<open>
  Claim C10. The configured locale is inserted as it is, without escaping, into the
  xml:lang attribute of the speak element and into that of the lang element. With the
  locale \<open>en'US\<close> the quote appears raw in both attributes of the document.
\<close>

theorem locale_inserted_verbatim:
  "starts_with (''<speak version='1.0' xml:lang='' @ [CHR 0x27] @ SPEECH_LANGUAGE cfg @ [CHR 0x27] @ '' xmlns='')
     (build_ssml cfg text)
   \<and> str_contains (''<lang xml:lang='' @ [CHR 0x27] @ SPEECH_LANGUAGE cfg @ [CHR 0x27] @ ''>'' @
        html_escape text @ ''</lang>'') (build_ssml cfg text)
   \<and> build_ssml (example_config\<lparr>SPEECH_LANGUAGE := ''en'US''\<rparr>) ''Hi'' =
       ''<speak version='1.0' xml:lang='en'US' xmlns='http://www.w3.org/2001/10/synthesis' xmlns:mstts='http://www.w3.org/2001/mstts'><voice name='DragonLatestNeural'><mstts:ttsembedding speakerProfileId='p1'/><mstts:express-as style='Cheerful'><prosody rate='+8%' pitch='+5%'><lang xml:lang='en'US'>Hi</lang></prosody></mstts:express-as></voice></speak>''"
proof -
  have 1: "starts_with (''<speak version='1.0' xml:lang='' @ [CHR 0x27] @ SPEECH_LANGUAGE cfg @ [CHR 0x27] @ '' xmlns='')
     (build_ssml cfg text)"
    by (simp add: build_ssml_def starts_with_Cons_Cons starts_with_append_same starts_with_Nil)
  obtain a b where ab: "ssml_inner (SPEECH_STYLE cfg) (SPEECH_LANGUAGE cfg) text
      = a @ lang_element (SPEECH_LANGUAGE cfg) text @ b"
    using inner_decomposition by blast
  let ?p = "''<lang xml:lang='' @ [CHR 0x27] @ SPEECH_LANGUAGE cfg @ [CHR 0x27] @ ''>'' @
        html_escape text @ ''</lang>''"
  have "\<exists>pre post. build_ssml cfg text = pre @ ?p @ post"
  proof -
    have "build_ssml cfg text =
      (''<speak version='' @ [CHR 0x27] @ ''1.0'' @ [CHR 0x27] @
     '' xml:lang='' @ [CHR 0x27] @ SPEECH_LANGUAGE cfg @ [CHR 0x27] @ '' '' @
     ''xmlns='' @ [CHR 0x27] @ ''http://www.w3.org/2001/10/synthesis'' @ [CHR 0x27] @ '' '' @
     ''xmlns:mstts='' @ [CHR 0x27] @ ''http://www.w3.org/2001/mstts'' @ [CHR 0x27] @ ''>'' @
     ''<voice name='' @ [CHR 0x27] @ ''DragonLatestNeural'' @ [CHR 0x27] @ ''>'' @
     ''<mstts:ttsembedding speakerProfileId='' @ [CHR 0x27] @
        html_escape (SPEAKER_PROFILE_ID cfg) @ [CHR 0x27] @ ''/>'' @
     ''<mstts:express-as style='' @ [CHR 0x27] @ html_escape (SPEECH_STYLE cfg) @ [CHR 0x27] @ ''>'' @ a)
      @ ?p @ (b @ ''</mstts:express-as></voice></speak>'')"
      by (simp add: build_ssml_def ab lang_element_def)
    then show ?thesis by blast
  qed
  then have 2: "str_contains ?p (build_ssml cfg text)"
    using str_contains_append by metis
  have e: "html_escape ''Hi'' = ''Hi''" "html_escape ''p1'' = ''p1''" "html_escape ''Cheerful'' = ''Cheerful''"
    by (simp_all add: html_escape_def replace_char_def)
  have 3: "build_ssml (example_config\<lparr>SPEECH_LANGUAGE := ''en'US''\<rparr>) ''Hi'' =
       ''<speak version='1.0' xml:lang='en'US' xmlns='http://www.w3.org/2001/10/synthesis' xmlns:mstts='http://www.w3.org/2001/mstts'><voice name='DragonLatestNeural'><mstts:ttsembedding speakerProfileId='p1'/><mstts:express-as style='Cheerful'><prosody rate='+8%' pitch='+5%'><lang xml:lang='en'US'>Hi</lang></prosody></mstts:express-as></voice></speak>''"
    by (simp add: build_ssml_def example_config_def ssml_inner_def PROSODY_PRESETS_def lang_element_def e)
  show ?thesis
    using 1 2 3 by blast
qed

end
